theory Spec2Isabelle
  imports Main "HOL-Library.Sublist"
begin

section \<open>Path functions of the runtime (\<open>os.path\<close>, POSIX flavour)\<close>

text \<open>
  \<open>config/log_config.py\<close> builds every path with \<open>os.path.join\<close>, \<open>os.path.dirname\<close>,
  \<open>os.path.basename\<close> and \<open>os.path.abspath\<close>. They are modelled after \<open>posixpath\<close>, on
  strings as character lists. \<open>os.getcwd()\<close> is taken to succeed: the working directory is
  a field of the environment.
\<close>

definition sep :: char where
  "sep = CHR ''/''"

definition startswith_sep :: "string \<Rightarrow> bool" where
  "startswith_sep p = (case p of [] \<Rightarrow> False | c # _ \<Rightarrow> c = sep)"

definition endswith_sep :: "string \<Rightarrow> bool" where
  "endswith_sep p = (case rev p of [] \<Rightarrow> False | c # _ \<Rightarrow> c = sep)"

definition isabs :: "string \<Rightarrow> bool" where
  "isabs p = startswith_sep p"

text \<open>One round of the loop of \<open>posixpath.join\<close>: \<open>path\<close> is the accumulator, \<open>b\<close> the next part.\<close>

definition join_step :: "string \<Rightarrow> string \<Rightarrow> string" where
  "join_step path b =
     (if startswith_sep b then b
      else if path = [] \<or> endswith_sep path then path @ b
      else path @ sep # b)"

definition join :: "string \<Rightarrow> string list \<Rightarrow> string" where
  "join a p = foldl join_step a p"

text \<open>\<open>p.rfind(sep) + 1\<close>: the index just after the last separator, 0 when there is none.\<close>

definition rfind_sep_1 :: "string \<Rightarrow> nat" where
  "rfind_sep_1 p = length p - length (takeWhile (\<lambda>c. c \<noteq> sep) (rev p))"

definition rstrip_sep :: "string \<Rightarrow> string" where
  "rstrip_sep s = rev (dropWhile (\<lambda>c. c = sep) (rev s))"

definition dirname :: "string \<Rightarrow> string" where
  "dirname p =
     (let head = take (rfind_sep_1 p) p
      in if head \<noteq> [] \<and> head \<noteq> replicate (length head) sep then rstrip_sep head else head)"

definition basename :: "string \<Rightarrow> string" where
  "basename p = drop (rfind_sep_1 p) p"

text \<open>\<open>path.split(sep)\<close> and \<open>sep.join(comps)\<close>.\<close>

fun split_sep :: "string \<Rightarrow> string list" where
  "split_sep [] = [[]]"
| "split_sep (c # cs) =
     (if c = sep then [] # split_sep cs
      else (case split_sep cs of [] \<Rightarrow> [[c]] | x # xs \<Rightarrow> (c # x) # xs))"

fun sep_join :: "string list \<Rightarrow> string" where
  "sep_join [] = []"
| "sep_join [x] = x"
| "sep_join (x # y # r) = x @ sep # sep_join (y # r)"

definition initial_slashes :: "string \<Rightarrow> nat" where
  "initial_slashes path =
     (if startswith_sep path
      then (if take 2 path = [sep, sep] \<and> take 3 path \<noteq> [sep, sep, sep] then 2 else 1)
      else 0)"

text \<open>The loop of \<open>posixpath.normpath\<close> over the components, \<open>new_comps\<close> as accumulator.\<close>

fun norm_comps :: "nat \<Rightarrow> string list \<Rightarrow> string list \<Rightarrow> string list" where
  "norm_comps n [] new_comps = new_comps"
| "norm_comps n (part # comps) new_comps =
     norm_comps n comps
       (if part = [] \<or> part = ''.'' then new_comps
        else if part \<noteq> ''..'' \<or> (n = 0 \<and> new_comps = [])
                \<or> (new_comps \<noteq> [] \<and> last new_comps = ''..'')
        then new_comps @ [part]
        else if new_comps \<noteq> [] then butlast new_comps
        else new_comps)"

definition normpath :: "string \<Rightarrow> string" where
  "normpath path =
     (if path = [] then ''.''
      else let n = initial_slashes path;
               p = sep_join (norm_comps n (split_sep path) []);
               p' = (if n \<noteq> 0 then replicate n sep @ p else p)
           in if p' = [] then ''.'' else p')"

text \<open>\<open>os.path.abspath\<close>, with the working directory as an argument.\<close>

definition abspath :: "string \<Rightarrow> string \<Rightarrow> string" where
  "abspath wd path = normpath (if isabs path then path else join wd [path])"


section \<open>The execution environment seen at import time\<close>

text \<open>
  A frame of the interpreter's call stack, as far as the module reads it: whether its globals
  bind \<open>__file__\<close> (and to what), and the file name of its code object, which is what
  \<open>inspect.getfile\<close> returns for a frame.
\<close>

record frame =
  f_globals_file :: "string option"
  co_filename :: string

text \<open>
  \<open>sys_frozen\<close> is the truth value of the attribute \<open>sys.frozen\<close> (\<open>None\<close>: the attribute is
  absent, and \<open>getattr\<close> gives its default \<open>False\<close>); \<open>sys_MEIPASS\<close> is \<open>sys._MEIPASS\<close>
  (\<open>None\<close>: absent); \<open>module_file\<close> is the global \<open>__file__\<close> of \<open>log_config\<close> itself
  (\<open>None\<close>: unbound, reading it raises \<open>NameError\<close>); \<open>frames_available\<close> tells whether
  \<open>inspect.currentframe()\<close> returns a frame rather than \<open>None\<close>; \<open>outer_frames\<close> are the
  frames below the module's own top-level frame (the importers), innermost first.
\<close>

record env =
  sys_frozen :: "bool option"
  sys_MEIPASS :: "string option"
  sys_executable :: string
  module_file :: "string option"
  module_co_filename :: string
  frames_available :: bool
  outer_frames :: "frame list"
  cwd :: string

text \<open>
  Exceptions as values: \<open>AttributeError\<close> (reading an attribute of \<open>None\<close> or an absent
  attribute of \<open>sys\<close>), \<open>OSError\<close> (what the first \<open>except\<close> clause of the file sink
  catches) and any other subclass of \<open>Exception\<close>.
\<close>

datatype error = AttributeError | OSError | OtherException

text \<open>Line 24: \<open>getattr(sys, 'frozen', False) and hasattr(sys, '_MEIPASS')\<close>.\<close>

definition IS_BUNDLED_of :: "env \<Rightarrow> bool" where
  "IS_BUNDLED_of e =
     ((case sys_frozen e of None \<Rightarrow> False | Some b \<Rightarrow> b) \<and> sys_MEIPASS e \<noteq> None)"

text \<open>
  Every frame that runs code of \<open>log_config\<close> (its top level and its functions) shares the
  module's globals and the file name of its code.
\<close>

definition module_frame :: "env \<Rightarrow> frame" where
  "module_frame e = \<lparr>f_globals_file = module_file e, co_filename = module_co_filename e\<rparr>"

text \<open>
  \<open>inspect.currentframe()\<close> inside a function of the module that was called from the stack
  \<open>stk\<close>: the function's own frame on top of the caller's, or \<open>None\<close> (the empty stack).
\<close>

definition currentframe :: "env \<Rightarrow> frame list \<Rightarrow> frame list" where
  "currentframe e stk = (if frames_available e then module_frame e # stk else [])"

text \<open>The stack at the module's top level, from which lines 100 and 101 make their calls.\<close>

definition import_stack :: "env \<Rightarrow> frame list" where
  "import_stack e = module_frame e # outer_frames e"


section \<open>Base paths (lines 30 to 101)\<close>

text \<open>
  Lines 54 and 55: step back while the frame has a caller and its globals do not bind
  \<open>__file__\<close>. The result is the stack from \<open>caller_frame\<close> on.
\<close>

fun caller_frame_loop :: "frame list \<Rightarrow> frame list" where
  "caller_frame_loop (f # g # rest) =
     (if f_globals_file f = None then caller_frame_loop (g # rest) else f # g # rest)"
| "caller_frame_loop stk = stk"

text \<open>
  Lines 62 and 63: \<open>inspect.getfile\<close> of the caller's frame, or of the current one when it
  has no caller; with no frame at all, \<open>None.f_back\<close> raises.
\<close>

fun caller_frame_fallback :: "frame list \<Rightarrow> error + string" where
  "caller_frame_fallback [] = Inl AttributeError"
| "caller_frame_fallback [f] = Inr (co_filename f)"
| "caller_frame_fallback (f # g # rest) = Inr (co_filename g)"

text \<open>Lines 51 to 63: the file the fallback settles on.\<close>

definition caller_file :: "frame list \<Rightarrow> error + string" where
  "caller_file cur =
     (case caller_frame_loop cur of
        [] \<Rightarrow> caller_frame_fallback cur
      | f # _ \<Rightarrow> (case f_globals_file f of
                    Some p \<Rightarrow> Inr p
                  | None \<Rightarrow> caller_frame_fallback cur))"

text \<open>
  Lines 65 to 72: from the file found to the root, one level up when the file lies in a
  directory named \<open>scripts\<close>.
\<close>

definition raiz_desde_script :: "env \<Rightarrow> string \<Rightarrow> string" where
  "raiz_desde_script e fl =
     (let directorio_script_original = dirname (abspath (cwd e) fl)
      in if basename directorio_script_original = ''scripts''
         then abspath (cwd e) (join directorio_script_original [''..''])
         else directorio_script_original)"

text \<open>Lines 49 to 75: the handler of \<open>NameError\<close>, itself guarded by \<open>except Exception\<close>.\<close>

definition ruta_base_desde_pila :: "env \<Rightarrow> frame list \<Rightarrow> string" where
  "ruta_base_desde_pila e stk =
     (case caller_file (currentframe e stk) of
        Inr fl \<Rightarrow> raiz_desde_script e fl
      | Inl _ \<Rightarrow> abspath (cwd e) ''.'')"

text \<open>
  Lines 41 to 75: the value of the variable \<open>ruta_base\<close> when line 79 tests it
  (\<open>None\<close> as in the source).
\<close>

definition ruta_base_desarrollo :: "env \<Rightarrow> frame list \<Rightarrow> string option" where
  "ruta_base_desarrollo e stk =
     (case module_file e of
        Some fl \<Rightarrow>
          (let directorio_actual = dirname (abspath (cwd e) fl)
           in Some (abspath (cwd e) (join directorio_actual [''..''])))
      | None \<Rightarrow> Some (ruta_base_desde_pila e stk))"

text \<open>
  A sink of the \<open>logging\<close> library: where it writes, its minimum level, its rotation policy
  (\<open>maxBytes\<close>, \<open>backupCount\<close>) when it is a \<open>RotatingFileHandler\<close>, and whether its
  \<open>close()\<close> raises. \<open>close_raises\<close> only matters for the handlers found on the root logger
  when the configuration begins; the handlers the module creates close cleanly.
\<close>

datatype stream = Stdout | Stderr

datatype destino = Stream stream | File string

record handler =
  destino :: destino
  nivel :: int
  rotacion :: "(int \<times> int) option"
  close_raises :: bool

text \<open>What \<open>print\<close> writes (to standard output), one value for each call in the source.\<close>

datatype impreso =
    FallbackFinalCWD string
  | AdvertenciaCerrandoHandler handler
  | ErrorCriticoLogConfig
  | DirectorioIntentado string
  | ArchivoIntentado string
  | ErrorSistemaOperativo
  | ErrorInesperadoLogConfig

text \<open>
  \<open>_obtener_ruta_base_lectura\<close>: the path returned and the lines printed, or the exception
  raised. \<open>stk\<close> is the caller's stack.
\<close>

definition obtener_ruta_base_lectura :: "env \<Rightarrow> frame list \<Rightarrow> error + (string \<times> impreso list)" where
  "obtener_ruta_base_lectura e stk =
     (if IS_BUNDLED_of e
      then (case sys_MEIPASS e of None \<Rightarrow> Inl AttributeError | Some p \<Rightarrow> Inr (p, []))
      else (case ruta_base_desarrollo e stk of
              None \<Rightarrow> Inr (abspath (cwd e) ''.'', [FallbackFinalCWD (abspath (cwd e) ''.'')])
            | Some ruta_base \<Rightarrow> Inr (ruta_base, [])))"

text \<open>\<open>_obtener_ruta_base_escritura\<close>; its call of the read function adds its own frame.\<close>

definition obtener_ruta_base_escritura :: "env \<Rightarrow> frame list \<Rightarrow> error + (string \<times> impreso list)" where
  "obtener_ruta_base_escritura e stk =
     (if IS_BUNDLED_of e
      then Inr (dirname (sys_executable e), [])
      else obtener_ruta_base_lectura e (currentframe e stk))"


section \<open>The process state\<close>

text \<open>
  Records of the \<open>logging\<close> library: the logger they were made on, their level and their
  message. The messages are the ones the module logs, with the values they interpolate.
\<close>

datatype mensaje =
    IntentoReconfigurar
  | FalloCriticoLogArchivo
  | ErrorInesperadoLogArchivo
  | SistemaLoggingConfigurado bool
  | RutaBaseLecturaCodigo string
  | RutaBaseEscrituraLogs string
  | EstadoSalidas "int option" "(int \<times> string \<times> (int \<times> int) option) option"

record log_record =
  logger_name :: string
  levelno :: int
  msg :: mensaje

definition NOTSET :: int where "NOTSET = 0"
definition DEBUG :: int where "DEBUG = 10"
definition INFO :: int where "INFO = 20"
definition WARNING :: int where "WARNING = 30"
definition CRITICAL :: int where "CRITICAL = 50"

text \<open>
  The module's globals (the two state variables of lines 18 and 19 and the three constants of
  lines 24, 100 and 101), the root logger (its level and handler list), and what the process
  has done that can be observed: the handlers whose \<open>close()\<close> completed, the records created,
  the records written with their destination, and the lines printed to standard output.
\<close>

record estado =
  configuracion_realizada :: bool
  ruta_archivo_log_actual :: "string option"
  IS_BUNDLED :: bool
  RUTA_BASE_LECTURA :: string
  RUTA_BASE_ESCRITURA :: string
  root_level :: int
  root_handlers :: "handler list"
  cerrados :: "handler list"
  registros :: "log_record list"
  salida :: "(destino \<times> log_record) list"
  impresos :: "impreso list"

text \<open>
  Importing the module in a fresh process (lines 18 to 101): the root logger of \<open>logging\<close>
  starts at level \<open>WARNING\<close> with no handler.
\<close>

definition cargar_modulo :: "env \<Rightarrow> error + estado" where
  "cargar_modulo e =
     (case obtener_ruta_base_lectura e (import_stack e) of
        Inl x \<Rightarrow> Inl x
      | Inr (lectura, out1) \<Rightarrow>
          (case obtener_ruta_base_escritura e (import_stack e) of
             Inl x \<Rightarrow> Inl x
           | Inr (escritura, out2) \<Rightarrow>
               Inr \<lparr>configuracion_realizada = False,
                    ruta_archivo_log_actual = None,
                    IS_BUNDLED = IS_BUNDLED_of e,
                    RUTA_BASE_LECTURA = lectura,
                    RUTA_BASE_ESCRITURA = escritura,
                    root_level = WARNING,
                    root_handlers = [],
                    cerrados = [],
                    registros = [],
                    salida = [],
                    impresos = out1 @ out2\<rparr>))"


section \<open>Public path functions (lines 107 to 143)\<close>

definition get_credentials_path :: "estado \<Rightarrow> string" where
  "get_credentials_path s =
     (let base_para_credenciales =
            (if IS_BUNDLED s then RUTA_BASE_ESCRITURA s else RUTA_BASE_LECTURA s)
      in join base_para_credenciales [''config'', ''credenciales.json''])"

definition get_data_path :: "estado \<Rightarrow> string \<Rightarrow> string" where
  "get_data_path s relative_path_inside_data =
     join (RUTA_BASE_ESCRITURA s) [''data'', relative_path_inside_data]"

definition get_logs_path :: "estado \<Rightarrow> string \<Rightarrow> string" where
  "get_logs_path s relative_path_inside_logs =
     join (RUTA_BASE_ESCRITURA s) [''logs'', relative_path_inside_logs]"


section \<open>The \<open>logging\<close> library, as far as the module uses it\<close>

text \<open>
  The module logs on two loggers: the root logger and \<open>ConfigLog\<close>, which it never
  configures. \<open>ConfigLog\<close> is taken as \<open>logging.getLogger\<close> creates it: no level of its own,
  no handler of its own, propagating to the root; \<open>logging.disable\<close> and filters are not in
  use.

  \<open>Logger.callHandlers\<close> for such a logger (and for the root itself): every root handler
  whose level admits the record writes it; with no handler at all the library's
  \<open>lastResort\<close> handler writes records of level \<open>WARNING\<close> and above to standard error.
\<close>

definition callHandlers :: "log_record \<Rightarrow> estado \<Rightarrow> estado" where
  "callHandlers r s =
     (if root_handlers s = []
      then (if WARNING \<le> levelno r then s\<lparr>salida := salida s @ [(Stream Stderr, r)]\<rparr> else s)
      else s\<lparr>salida := salida s @
                 map (\<lambda>h. (destino h, r)) (filter (\<lambda>h. nivel h \<le> levelno r) (root_handlers s))\<rparr>)"

text \<open>
  \<open>Logger.log\<close> at a level, on a logger whose effective level is the root's: the record is
  created when the level is enabled, and handed to the handlers.
\<close>

definition logger_log :: "string \<Rightarrow> int \<Rightarrow> mensaje \<Rightarrow> estado \<Rightarrow> estado" where
  "logger_log nombre lvl m s =
     (if root_level s \<le> lvl
      then (let r = \<lparr>logger_name = nombre, levelno = lvl, msg = m\<rparr>
            in callHandlers r (s\<lparr>registros := registros s @ [r]\<rparr>))
      else s)"

text \<open>
  \<open>logging.basicConfig()\<close> without arguments on a root logger that has no handler: a
  \<open>StreamHandler\<close> on standard error, at level \<open>NOTSET\<close>, is attached.
\<close>

definition manejador_basico :: handler where
  "manejador_basico =
     \<lparr>destino = Stream Stderr, nivel = NOTSET, rotacion = None, close_raises = False\<rparr>"

definition basicConfig :: "estado \<Rightarrow> estado" where
  "basicConfig s = (if root_handlers s = [] then s\<lparr>root_handlers := [manejador_basico]\<rparr> else s)"

text \<open>
  The module-level function \<open>logging.critical\<close>: it calls \<open>basicConfig()\<close> when the root
  logger has no handler, then logs on the root logger.
\<close>

definition logging_critical :: "mensaje \<Rightarrow> estado \<Rightarrow> estado" where
  "logging_critical m s =
     logger_log ''root'' CRITICAL m (if root_handlers s = [] then basicConfig s else s)"


section \<open>\<open>configurar_logging\<close> (lines 150 to 272)\<close>

record opciones =
  nombre_archivo_log :: string
  nivel_archivo :: int
  nivel_consola :: int
  usar_rotacion :: bool
  max_bytes_rotacion :: int
  num_respaldos :: int
  log_a_consola :: bool
  log_a_archivo :: bool

definition opciones_por_defecto :: opciones where
  "opciones_por_defecto =
     \<lparr>nombre_archivo_log = ''app.log'', nivel_archivo = DEBUG, nivel_consola = INFO,
      usar_rotacion = True, max_bytes_rotacion = 10 * 1024 * 1024, num_respaldos = 5,
      log_a_consola = True, log_a_archivo = True\<rparr>"

text \<open>
  The file system, as the configuration meets it: for a path, whether \<open>os.makedirs\<close> raises,
  and whether opening the log file (by \<open>RotatingFileHandler\<close> or \<open>FileHandler\<close>) raises.
\<close>

record mundo =
  os_makedirs :: "string \<Rightarrow> error option"
  abrir_archivo :: "string \<Rightarrow> error option"

text \<open>
  Lines 190 to 196: the loop over a copy of the handler list. \<open>close()\<close> and
  \<open>removeHandler\<close> share one \<open>try\<close>; when \<open>close()\<close> raises, the warning is printed and the
  loop goes on.
\<close>

fun limpiar_handlers :: "handler list \<Rightarrow> estado \<Rightarrow> estado" where
  "limpiar_handlers [] s = s"
| "limpiar_handlers (h # hs) s =
     limpiar_handlers hs
       (if close_raises h
        then s\<lparr>impresos := impresos s @ [AdvertenciaCerrandoHandler h]\<rparr>
        else s\<lparr>cerrados := cerrados s @ [h], root_handlers := remove1 h (root_handlers s)\<rparr>)"

text \<open>
  Lines 183 to 196: the root logger is set to \<open>DEBUG\<close> and the handlers it holds are
  cleaned up.
\<close>

definition raiz_y_limpieza :: "estado \<Rightarrow> estado" where
  "raiz_y_limpieza s =
     (let logger_raiz = s\<lparr>root_level := DEBUG\<rparr>
      in limpiar_handlers (root_handlers logger_raiz) logger_raiz)"

text \<open>Lines 201 to 203: the console handler.\<close>

definition manejador_consola :: "opciones \<Rightarrow> handler" where
  "manejador_consola ops =
     \<lparr>destino = Stream Stdout, nivel = nivel_consola ops, rotacion = None, close_raises = False\<rparr>"

text \<open>Lines 200 to 207: the console handler when enabled, and the reset of the active path.\<close>

definition consola_y_reset :: "opciones \<Rightarrow> estado \<Rightarrow> estado" where
  "consola_y_reset ops s =
     (let s' = (if log_a_consola ops
                then s\<lparr>root_handlers := root_handlers s @ [manejador_consola ops]\<rparr>
                else s)
      in s'\<lparr>ruta_archivo_log_actual := None\<rparr>)"

text \<open>
  Lines 211 to 233, the body of the \<open>try\<close> up to the handler ready to be attached: the
  handler and the full path of the file, or the exception raised on the way.
\<close>

definition manejador_archivo :: "mundo \<Rightarrow> opciones \<Rightarrow> estado \<Rightarrow> error + (handler \<times> string)" where
  "manejador_archivo w ops s =
     (let ruta_directorio_log = get_logs_path s []
      in case os_makedirs w ruta_directorio_log of
           Some x \<Rightarrow> Inl x
         | None \<Rightarrow>
             (let ruta_completa_archivo = join ruta_directorio_log [nombre_archivo_log ops]
              in case abrir_archivo w ruta_completa_archivo of
                   Some x \<Rightarrow> Inl x
                 | None \<Rightarrow>
                     Inr (\<lparr>destino = File ruta_completa_archivo,
                           nivel = nivel_archivo ops,
                           rotacion = (if usar_rotacion ops
                                       then Some (max_bytes_rotacion ops, num_respaldos ops)
                                       else None),
                           close_raises = False\<rparr>,
                          ruta_completa_archivo)))"

text \<open>Lines 237 to 249: the two \<open>except\<close> clauses.\<close>

definition fallo_archivo :: "error \<Rightarrow> opciones \<Rightarrow> estado \<Rightarrow> estado" where
  "fallo_archivo x ops s =
     (case x of
        OSError \<Rightarrow>
          logging_critical FalloCriticoLogArchivo
            (s\<lparr>impresos := impresos s @
                  [ErrorCriticoLogConfig, DirectorioIntentado (get_logs_path s []),
                   ArchivoIntentado (nombre_archivo_log ops), ErrorSistemaOperativo]\<rparr>)
      | _ \<Rightarrow>
          logging_critical ErrorInesperadoLogArchivo
            (s\<lparr>impresos := impresos s @ [ErrorInesperadoLogConfig]\<rparr>))"

text \<open>Lines 208 to 249: the file handler when enabled, with its \<open>try\<close> and \<open>except\<close>.\<close>

definition configurar_archivo :: "mundo \<Rightarrow> opciones \<Rightarrow> estado \<Rightarrow> estado" where
  "configurar_archivo w ops s =
     (if log_a_archivo ops
      then (case manejador_archivo w ops s of
              Inr (h, ruta_completa_archivo) \<Rightarrow>
                s\<lparr>root_handlers := root_handlers s @ [h],
                  ruta_archivo_log_actual := Some ruta_completa_archivo\<rparr>
            | Inl x \<Rightarrow> fallo_archivo x ops s)
      else s)"

text \<open>Lines 254 to 272: the summary logged on \<open>ConfigLog\<close>.\<close>

definition loguear_estado :: "opciones \<Rightarrow> estado \<Rightarrow> estado" where
  "loguear_estado ops s =
     (let s1 = logger_log ''ConfigLog'' INFO (SistemaLoggingConfigurado (IS_BUNDLED s)) s;
          s2 = logger_log ''ConfigLog'' INFO (RutaBaseLecturaCodigo (RUTA_BASE_LECTURA s1)) s1;
          s3 = logger_log ''ConfigLog'' INFO (RutaBaseEscrituraLogs (RUTA_BASE_ESCRITURA s2)) s2;
          estado_consola = (if log_a_consola ops then Some (nivel_consola ops) else None);
          estado_archivo =
            (case ruta_archivo_log_actual s3 of
               None \<Rightarrow> None
             | Some p \<Rightarrow>
                 (if p = [] then None
                  else Some (nivel_archivo ops, p,
                             if usar_rotacion ops
                             then Some (max_bytes_rotacion ops, num_respaldos ops)
                             else None)))
      in logger_log ''ConfigLog'' INFO (EstadoSalidas estado_consola estado_archivo) s3)"

text \<open>
  The whole function. The levels are integers, as the defaults are, so \<open>setLevel\<close> does not
  raise; every exception of the body is caught by the handlers modelled above, and the
  function is a total transformer of the state.
\<close>

definition configurar_logging :: "mundo \<Rightarrow> opciones \<Rightarrow> estado \<Rightarrow> estado" where
  "configurar_logging w ops s =
     (if configuracion_realizada s
      then logger_log ''ConfigLog'' WARNING IntentoReconfigurar s
      else
        (let s1 = raiz_y_limpieza s;
             s2 = consola_y_reset ops s1;
             s3 = configurar_archivo w ops s2;
             s4 = s3\<lparr>configuracion_realizada := True\<rparr>
         in loguear_estado ops s4))"

text \<open>\<open>obtener_ruta_archivo_log\<close> (lines 277 to 282).\<close>

definition obtener_ruta_archivo_log :: "estado \<Rightarrow> string option" where
  "obtener_ruta_archivo_log s = ruta_archivo_log_actual s"

text \<open>What handlers have written to a destination.\<close>

definition escrito_en :: "destino \<Rightarrow> estado \<Rightarrow> log_record list" where
  "escrito_en d s = map snd (filter (\<lambda>x. fst x = d) (salida s))"

text \<open>A run of calls of \<open>configurar_logging\<close>, each with its file system and options.\<close>

definition configurar_varias :: "(mundo \<times> opciones) list \<Rightarrow> estado \<Rightarrow> estado" where
  "configurar_varias llamadas s = foldl (\<lambda>s' (w, ops). configurar_logging w ops s') s llamadas"


section \<open>Auxiliary notions and example inputs\<close>

text \<open>A base directory followed by the separator that \<open>join\<close> inserts after it.\<close>

definition base_con_sep :: "string \<Rightarrow> string" where
  "base_con_sep b = (if b = [] \<or> endswith_sep b then b else b @ [sep])"

text \<open>Run from source, the module imported from \<open>/app/config/log_config.py\<close>.\<close>

definition entorno_app :: env where
  "entorno_app =
     \<lparr>sys_frozen = None, sys_MEIPASS = None, sys_executable = ''/usr/bin/python3'',
      module_file = Some ''/app/config/log_config.py'',
      module_co_filename = ''/app/config/log_config.py'',
      frames_available = True, outer_frames = [], cwd = ''/home/user''\<rparr>"

definition estado_app :: estado where
  "estado_app =
     \<lparr>configuracion_realizada = False, ruta_archivo_log_actual = None, IS_BUNDLED = False,
      RUTA_BASE_LECTURA = ''/app'', RUTA_BASE_ESCRITURA = ''/app'', root_level = 30,
      root_handlers = [], cerrados = [], registros = [], salida = [], impresos = []\<rparr>"

text \<open>A packaged executable \<open>/opt/rpa/rpa_web\<close>, unpacked under \<open>/tmp/_MEI1234\<close>.\<close>

definition entorno_empaquetado :: env where
  "entorno_empaquetado =
     \<lparr>sys_frozen = Some True, sys_MEIPASS = Some ''/tmp/_MEI1234'',
      sys_executable = ''/opt/rpa/rpa_web'',
      module_file = Some ''/tmp/_MEI1234/config/log_config.pyc'',
      module_co_filename = ''config/log_config.py'',
      frames_available = True, outer_frames = [], cwd = ''/home/user''\<rparr>"

definition estado_empaquetado :: estado where
  "estado_empaquetado =
     \<lparr>configuracion_realizada = False, ruta_archivo_log_actual = None, IS_BUNDLED = True,
      RUTA_BASE_LECTURA = ''/tmp/_MEI1234'', RUTA_BASE_ESCRITURA = ''/opt/rpa'', root_level = 30,
      root_handlers = [], cerrados = [], registros = [], salida = [], impresos = []\<rparr>"

text \<open>
  The module's code executed without \<open>__file__\<close> in its globals, reached from a script
  \<open>/proyecto/scripts/main.py\<close> through one frame that has no \<open>__file__\<close> either.
\<close>

definition entorno_script :: env where
  "entorno_script =
     \<lparr>sys_frozen = None, sys_MEIPASS = None, sys_executable = ''/usr/bin/python3'',
      module_file = None, module_co_filename = ''<string>'',
      frames_available = True,
      outer_frames = [\<lparr>f_globals_file = None, co_filename = ''<string>''\<rparr>,
                      \<lparr>f_globals_file = Some ''/proyecto/scripts/main.py'',
                       co_filename = ''/proyecto/scripts/main.py''\<rparr>],
      cwd = ''/home/user''\<rparr>"

definition estado_script :: estado where
  "estado_script =
     \<lparr>configuracion_realizada = False, ruta_archivo_log_actual = None, IS_BUNDLED = False,
      RUTA_BASE_LECTURA = ''/proyecto'', RUTA_BASE_ESCRITURA = ''/proyecto'', root_level = 30,
      root_handlers = [], cerrados = [], registros = [], salida = [], impresos = []\<rparr>"

text \<open>The same without \<open>__file__\<close> and on an interpreter without frame support.\<close>

definition entorno_sin_pila :: env where
  "entorno_sin_pila =
     \<lparr>sys_frozen = None, sys_MEIPASS = None, sys_executable = ''/usr/bin/python3'',
      module_file = None, module_co_filename = ''<string>'',
      frames_available = False, outer_frames = [], cwd = ''/home/user''\<rparr>"

text \<open>The warning of a repeated call, and the record of a failed file sink.\<close>

definition aviso_reconfiguracion :: log_record where
  "aviso_reconfiguracion =
     \<lparr>logger_name = ''ConfigLog'', levelno = WARNING, msg = IntentoReconfigurar\<rparr>"

definition registro_critico :: "error \<Rightarrow> log_record" where
  "registro_critico x =
     \<lparr>logger_name = ''root'', levelno = CRITICAL,
      msg = (case x of OSError \<Rightarrow> FalloCriticoLogArchivo | _ \<Rightarrow> ErrorInesperadoLogArchivo)\<rparr>"

text \<open>
  Handlers left on the root logger by earlier code: one whose \<open>close()\<close> raises, one that
  closes cleanly.
\<close>

definition manejador_roto :: handler where
  "manejador_roto =
     \<lparr>destino = File ''/var/log/viejo.log'', nivel = 0, rotacion = None, close_raises = True\<rparr>"

definition manejador_viejo :: handler where
  "manejador_viejo =
     \<lparr>destino = Stream Stderr, nivel = 30, rotacion = None, close_raises = False\<rparr>"

definition estado_con_roto :: estado where
  "estado_con_roto = estado_app\<lparr>root_handlers := [manejador_roto]\<rparr>"

definition estado_con_handlers :: estado where
  "estado_con_handlers = estado_app\<lparr>root_handlers := [manejador_roto, manejador_viejo]\<rparr>"

definition opciones_sin_salidas :: opciones where
  "opciones_sin_salidas = opciones_por_defecto\<lparr>log_a_consola := False, log_a_archivo := False\<rparr>"

definition opciones_solo_archivo :: opciones where
  "opciones_solo_archivo = opciones_por_defecto\<lparr>log_a_consola := False\<rparr>"

text \<open>A file system where everything succeeds, and one where no directory can be created.\<close>

definition mundo_ok :: mundo where
  "mundo_ok = \<lparr>os_makedirs = (\<lambda>_. None), abrir_archivo = (\<lambda>_. None)\<rparr>"

definition mundo_sin_permiso :: mundo where
  "mundo_sin_permiso = \<lparr>os_makedirs = (\<lambda>_. Some OSError), abrir_archivo = (\<lambda>_. None)\<rparr>"


section \<open>Base paths: totality and the two bases\<close>

lemma caller_file_module_frame:
  assumes "f_globals_file f = None"
  shows "caller_file (f # f # f # rest) = caller_file (f # f # rest)"
  using assms by (simp add: caller_file_def split: list.splits option.splits)

lemma ruta_base_desarrollo_defined: "ruta_base_desarrollo e stk \<noteq> None"
  by (simp add: ruta_base_desarrollo_def Let_def split: option.splits)

lemma lectura_total:
  "\<exists>r. obtener_ruta_base_lectura e stk = Inr (r, [])"
  using ruta_base_desarrollo_defined [of e stk]
  by (auto simp: obtener_ruta_base_lectura_def IS_BUNDLED_of_def split: option.splits)

lemma escritura_es_lectura:
  assumes "\<not> IS_BUNDLED_of e"
  shows "obtener_ruta_base_escritura e (import_stack e) = obtener_ruta_base_lectura e (import_stack e)"
proof (cases "module_file e")
  case None
  then have "f_globals_file (module_frame e) = None" by (simp add: module_frame_def)
  then have "ruta_base_desde_pila e (currentframe e (import_stack e)) = ruta_base_desde_pila e (import_stack e)"
    by (simp add: ruta_base_desde_pila_def currentframe_def import_stack_def caller_file_module_frame)
  with None assms show ?thesis
    by (simp add: obtener_ruta_base_escritura_def obtener_ruta_base_lectura_def ruta_base_desarrollo_def)
next
  case (Some fl)
  with assms show ?thesis
    by (simp add: obtener_ruta_base_escritura_def obtener_ruta_base_lectura_def ruta_base_desarrollo_def)
qed

lemma cargar_modulo_total: "\<exists>s. cargar_modulo e = Inr s"
proof -
  obtain r where r: "obtener_ruta_base_lectura e (import_stack e) = Inr (r, [])"
    using lectura_total by blast
  obtain r' where r': "obtener_ruta_base_lectura e (currentframe e (import_stack e)) = Inr (r', [])"
    using lectura_total by blast
  show ?thesis
    by (cases "IS_BUNDLED_of e") (simp_all add: cargar_modulo_def r r' obtener_ruta_base_escritura_def)
qed

lemma cargar_modulo_campos:
  assumes "cargar_modulo e = Inr s"
  shows "IS_BUNDLED s = IS_BUNDLED_of e"
    and "obtener_ruta_base_lectura e (import_stack e) = Inr (RUTA_BASE_LECTURA s, [])"
    and "obtener_ruta_base_escritura e (import_stack e) = Inr (RUTA_BASE_ESCRITURA s, [])"
    and "configuracion_realizada s = False"
    and "ruta_archivo_log_actual s = None"
    and "root_handlers s = []"
    and "impresos s = []"
proof -
  obtain r where r: "obtener_ruta_base_lectura e (import_stack e) = Inr (r, [])"
    using lectura_total by blast
  obtain r' where r': "obtener_ruta_base_lectura e (currentframe e (import_stack e)) = Inr (r', [])"
    using lectura_total by blast
  have s: "s = \<lparr>configuracion_realizada = False, ruta_archivo_log_actual = None,
               IS_BUNDLED = IS_BUNDLED_of e, RUTA_BASE_LECTURA = r,
               RUTA_BASE_ESCRITURA = (if IS_BUNDLED_of e then dirname (sys_executable e) else r'),
               root_level = WARNING, root_handlers = [], cerrados = [], registros = [], salida = [],
               impresos = []\<rparr>"
    using assms by (cases "IS_BUNDLED_of e") (simp_all add: cargar_modulo_def r r' obtener_ruta_base_escritura_def)
  show "IS_BUNDLED s = IS_BUNDLED_of e" "configuracion_realizada s = False"
    "ruta_archivo_log_actual s = None" "root_handlers s = []" "impresos s = []"
    by (simp_all add: s)
  show "obtener_ruta_base_lectura e (import_stack e) = Inr (RUTA_BASE_LECTURA s, [])"
    by (simp add: s r)
  show "obtener_ruta_base_escritura e (import_stack e) = Inr (RUTA_BASE_ESCRITURA s, [])"
    by (simp add: s r' obtener_ruta_base_escritura_def)
qed

lemma bases_iguales_desarrollo:
  assumes "cargar_modulo e = Inr s" and "\<not> IS_BUNDLED s"
  shows "RUTA_BASE_LECTURA s = RUTA_BASE_ESCRITURA s"
proof -
  have nb: "\<not> IS_BUNDLED_of e" using assms cargar_modulo_campos(1) by simp
  have "Inr (RUTA_BASE_ESCRITURA s, []) = (Inr (RUTA_BASE_LECTURA s, []) :: error + string \<times> impreso list)"
    using escritura_es_lectura [OF nb] cargar_modulo_campos(2,3) [OF assms(1)] by simp
  then show ?thesis by simp
qed

lemma cargar_entorno_app: "cargar_modulo entorno_app = Inr estado_app"
  by code_simp

lemma cargar_entorno_empaquetado: "cargar_modulo entorno_empaquetado = Inr estado_empaquetado"
  by code_simp

lemma cargar_entorno_script: "cargar_modulo entorno_script = Inr estado_script"
  by code_simp


lemma caller_frame_loop_primero:
  "(case caller_frame_loop cur of
      [] \<Rightarrow> X
    | f # _ \<Rightarrow> (case f_globals_file f of Some p \<Rightarrow> Inr p | None \<Rightarrow> X))
   = (case List.map_filter f_globals_file cur of [] \<Rightarrow> X | p # _ \<Rightarrow> Inr p)"
  by (induction cur rule: caller_frame_loop.induct)
     (auto simp: List.map_filter_simps split: option.splits list.splits)

lemma caller_file_primero:
  "caller_file cur =
     (case List.map_filter f_globals_file cur of
        [] \<Rightarrow> caller_frame_fallback cur
      | p # _ \<Rightarrow> Inr p)"
  unfolding caller_file_def by (rule caller_frame_loop_primero)


section \<open>Joining under a base\<close>

lemma join_subcarpeta:
  assumes "\<not> isabs rel" and "sub \<noteq> []" and "\<not> startswith_sep sub" and "\<not> endswith_sep sub"
  shows "join base [sub, rel] = base_con_sep base @ sub @ sep # rel"
proof -
  have "join_step base sub = base_con_sep base @ sub"
    using assms by (simp add: join_step_def base_con_sep_def)
  moreover have "\<not> endswith_sep (base_con_sep base @ sub)"
    using assms by (simp add: endswith_sep_def split: list.splits)
  ultimately show ?thesis
    using assms by (simp add: join_def join_step_def isabs_def)
qed

lemma join_data: "\<not> isabs rel \<Longrightarrow> join base [''data'', rel] = base_con_sep base @ ''data/'' @ rel"
  using join_subcarpeta [of rel "''data''" base]
  by (simp add: startswith_sep_def endswith_sep_def sep_def)

lemma join_logs: "\<not> isabs rel \<Longrightarrow> join base [''logs'', rel] = base_con_sep base @ ''logs/'' @ rel"
  using join_subcarpeta [of rel "''logs''" base]
  by (simp add: startswith_sep_def endswith_sep_def sep_def)

lemma prefix_base_con_sep: "prefix base (base_con_sep base @ t)"
  by (simp add: base_con_sep_def)

lemma join_credenciales:
  "join base [''config'', ''credenciales.json''] = base_con_sep base @ ''config/credenciales.json''"
  using join_subcarpeta [of "''credenciales.json''" "''config''" base]
  by (simp add: isabs_def startswith_sep_def endswith_sep_def sep_def)


section \<open>What each step of the configuration leaves alone\<close>

lemma callHandlers_campos [simp]:
  "configuracion_realizada (callHandlers r s) = configuracion_realizada s"
  "ruta_archivo_log_actual (callHandlers r s) = ruta_archivo_log_actual s"
  "IS_BUNDLED (callHandlers r s) = IS_BUNDLED s"
  "RUTA_BASE_LECTURA (callHandlers r s) = RUTA_BASE_LECTURA s"
  "RUTA_BASE_ESCRITURA (callHandlers r s) = RUTA_BASE_ESCRITURA s"
  "root_level (callHandlers r s) = root_level s"
  "root_handlers (callHandlers r s) = root_handlers s"
  "cerrados (callHandlers r s) = cerrados s"
  "registros (callHandlers r s) = registros s"
  "impresos (callHandlers r s) = impresos s"
  by (simp_all add: callHandlers_def)

lemma logger_log_campos [simp]:
  "configuracion_realizada (logger_log n l m s) = configuracion_realizada s"
  "ruta_archivo_log_actual (logger_log n l m s) = ruta_archivo_log_actual s"
  "IS_BUNDLED (logger_log n l m s) = IS_BUNDLED s"
  "RUTA_BASE_LECTURA (logger_log n l m s) = RUTA_BASE_LECTURA s"
  "RUTA_BASE_ESCRITURA (logger_log n l m s) = RUTA_BASE_ESCRITURA s"
  "root_level (logger_log n l m s) = root_level s"
  "root_handlers (logger_log n l m s) = root_handlers s"
  "cerrados (logger_log n l m s) = cerrados s"
  "impresos (logger_log n l m s) = impresos s"
  by (simp_all add: logger_log_def Let_def)

lemma logger_log_registros:
  "registros (logger_log n l m s) =
     (if root_level s \<le> l then registros s @ [\<lparr>logger_name = n, levelno = l, msg = m\<rparr>]
      else registros s)"
  by (simp add: logger_log_def Let_def)

lemma logging_critical_campos [simp]:
  "configuracion_realizada (logging_critical m s) = configuracion_realizada s"
  "ruta_archivo_log_actual (logging_critical m s) = ruta_archivo_log_actual s"
  "IS_BUNDLED (logging_critical m s) = IS_BUNDLED s"
  "RUTA_BASE_LECTURA (logging_critical m s) = RUTA_BASE_LECTURA s"
  "RUTA_BASE_ESCRITURA (logging_critical m s) = RUTA_BASE_ESCRITURA s"
  "root_level (logging_critical m s) = root_level s"
  "cerrados (logging_critical m s) = cerrados s"
  "impresos (logging_critical m s) = impresos s"
  by (simp_all add: logging_critical_def basicConfig_def)

lemma logging_critical_handlers:
  "root_handlers (logging_critical m s) =
     (if root_handlers s = [] then [manejador_basico] else root_handlers s)"
  by (simp add: logging_critical_def basicConfig_def)

lemma limpiar_handlers_campos [simp]:
  "configuracion_realizada (limpiar_handlers hs s) = configuracion_realizada s"
  "ruta_archivo_log_actual (limpiar_handlers hs s) = ruta_archivo_log_actual s"
  "IS_BUNDLED (limpiar_handlers hs s) = IS_BUNDLED s"
  "RUTA_BASE_LECTURA (limpiar_handlers hs s) = RUTA_BASE_LECTURA s"
  "RUTA_BASE_ESCRITURA (limpiar_handlers hs s) = RUTA_BASE_ESCRITURA s"
  "root_level (limpiar_handlers hs s) = root_level s"
  "registros (limpiar_handlers hs s) = registros s"
  "salida (limpiar_handlers hs s) = salida s"
  by (induction hs arbitrary: s; simp)+

lemma limpiar_handlers_impresos:
  "impresos (limpiar_handlers hs s) =
     impresos s @ map AdvertenciaCerrandoHandler (filter close_raises hs)"
  by (induction hs arbitrary: s) simp_all

lemma limpiar_handlers_cerrados:
  "cerrados (limpiar_handlers hs s) = cerrados s @ filter (\<lambda>h. \<not> close_raises h) hs"
  by (induction hs arbitrary: s) simp_all

lemma limpiar_handlers_resto:
  "root_handlers s = filter close_raises pre @ hs \<Longrightarrow>
   root_handlers (limpiar_handlers hs s) = filter close_raises (pre @ hs)"
proof (induction hs arbitrary: s pre)
  case Nil
  then show ?case by simp
next
  case (Cons h hs)
  show ?case
  proof (cases "close_raises h")
    case True
    with Cons.prems have "root_handlers (s\<lparr>impresos := impresos s @ [AdvertenciaCerrandoHandler h]\<rparr>)
        = filter close_raises (pre @ [h]) @ hs"
      by simp
    from Cons.IH [OF this] True show ?thesis by simp
  next
    case False
    then have "h \<notin> set (filter close_raises pre)" by simp
    with Cons.prems False
    have "root_handlers (s\<lparr>cerrados := cerrados s @ [h], root_handlers := remove1 h (root_handlers s)\<rparr>)
        = filter close_raises (pre @ [h]) @ hs"
      by (simp add: remove1_append)
    from Cons.IH [OF this] False show ?thesis by simp
  qed
qed

lemma limpiar_handlers_root:
  "root_handlers (limpiar_handlers (root_handlers s) s) = filter close_raises (root_handlers s)"
  using limpiar_handlers_resto [of s "[]" "root_handlers s"] by simp

lemma fallo_archivo_campos [simp]:
  "configuracion_realizada (fallo_archivo x ops s) = configuracion_realizada s"
  "ruta_archivo_log_actual (fallo_archivo x ops s) = ruta_archivo_log_actual s"
  "IS_BUNDLED (fallo_archivo x ops s) = IS_BUNDLED s"
  "RUTA_BASE_LECTURA (fallo_archivo x ops s) = RUTA_BASE_LECTURA s"
  "RUTA_BASE_ESCRITURA (fallo_archivo x ops s) = RUTA_BASE_ESCRITURA s"
  "root_level (fallo_archivo x ops s) = root_level s"
  "cerrados (fallo_archivo x ops s) = cerrados s"
  by (cases x; simp add: fallo_archivo_def)+

lemma loguear_estado_campos [simp]:
  "configuracion_realizada (loguear_estado ops s) = configuracion_realizada s"
  "ruta_archivo_log_actual (loguear_estado ops s) = ruta_archivo_log_actual s"
  "IS_BUNDLED (loguear_estado ops s) = IS_BUNDLED s"
  "RUTA_BASE_LECTURA (loguear_estado ops s) = RUTA_BASE_LECTURA s"
  "RUTA_BASE_ESCRITURA (loguear_estado ops s) = RUTA_BASE_ESCRITURA s"
  "root_level (loguear_estado ops s) = root_level s"
  "root_handlers (loguear_estado ops s) = root_handlers s"
  "cerrados (loguear_estado ops s) = cerrados s"
  "impresos (loguear_estado ops s) = impresos s"
  by (simp_all add: loguear_estado_def Let_def)

lemma raiz_y_limpieza_campos [simp]:
  "configuracion_realizada (raiz_y_limpieza s) = configuracion_realizada s"
  "ruta_archivo_log_actual (raiz_y_limpieza s) = ruta_archivo_log_actual s"
  "IS_BUNDLED (raiz_y_limpieza s) = IS_BUNDLED s"
  "RUTA_BASE_LECTURA (raiz_y_limpieza s) = RUTA_BASE_LECTURA s"
  "RUTA_BASE_ESCRITURA (raiz_y_limpieza s) = RUTA_BASE_ESCRITURA s"
  "root_level (raiz_y_limpieza s) = DEBUG"
  "registros (raiz_y_limpieza s) = registros s"
  "salida (raiz_y_limpieza s) = salida s"
  "root_handlers (raiz_y_limpieza s) = filter close_raises (root_handlers s)"
  "cerrados (raiz_y_limpieza s) = cerrados s @ filter (\<lambda>h. \<not> close_raises h) (root_handlers s)"
  "impresos (raiz_y_limpieza s) =
     impresos s @ map AdvertenciaCerrandoHandler (filter close_raises (root_handlers s))"
  using limpiar_handlers_root [of "s\<lparr>root_level := DEBUG\<rparr>"]
  by (simp_all add: raiz_y_limpieza_def Let_def limpiar_handlers_cerrados limpiar_handlers_impresos)

lemma consola_y_reset_campos [simp]:
  "configuracion_realizada (consola_y_reset ops s) = configuracion_realizada s"
  "ruta_archivo_log_actual (consola_y_reset ops s) = None"
  "IS_BUNDLED (consola_y_reset ops s) = IS_BUNDLED s"
  "RUTA_BASE_LECTURA (consola_y_reset ops s) = RUTA_BASE_LECTURA s"
  "RUTA_BASE_ESCRITURA (consola_y_reset ops s) = RUTA_BASE_ESCRITURA s"
  "root_level (consola_y_reset ops s) = root_level s"
  "registros (consola_y_reset ops s) = registros s"
  "salida (consola_y_reset ops s) = salida s"
  "cerrados (consola_y_reset ops s) = cerrados s"
  "impresos (consola_y_reset ops s) = impresos s"
  "root_handlers (consola_y_reset ops s) =
     root_handlers s @ (if log_a_consola ops then [manejador_consola ops] else [])"
  by (simp_all add: consola_y_reset_def Let_def)

lemma configurar_archivo_campos [simp]:
  "configuracion_realizada (configurar_archivo w ops s) = configuracion_realizada s"
  "IS_BUNDLED (configurar_archivo w ops s) = IS_BUNDLED s"
  "RUTA_BASE_LECTURA (configurar_archivo w ops s) = RUTA_BASE_LECTURA s"
  "RUTA_BASE_ESCRITURA (configurar_archivo w ops s) = RUTA_BASE_ESCRITURA s"
  "root_level (configurar_archivo w ops s) = root_level s"
  "cerrados (configurar_archivo w ops s) = cerrados s"
  by (simp_all add: configurar_archivo_def split: sum.splits prod.splits)

lemma configurar_logging_constantes:
  "IS_BUNDLED (configurar_logging w ops s) = IS_BUNDLED s"
  "RUTA_BASE_LECTURA (configurar_logging w ops s) = RUTA_BASE_LECTURA s"
  "RUTA_BASE_ESCRITURA (configurar_logging w ops s) = RUTA_BASE_ESCRITURA s"
  by (simp_all add: configurar_logging_def Let_def)

lemma configurar_logging_realizada:
  "configuracion_realizada (configurar_logging w ops s)"
  by (simp add: configurar_logging_def Let_def)

lemma configurar_varias_constantes:
  "IS_BUNDLED (configurar_varias llamadas s) = IS_BUNDLED s"
  "RUTA_BASE_LECTURA (configurar_varias llamadas s) = RUTA_BASE_LECTURA s"
  "RUTA_BASE_ESCRITURA (configurar_varias llamadas s) = RUTA_BASE_ESCRITURA s"
  unfolding configurar_varias_def
  by (induction llamadas arbitrary: s; simp add: configurar_logging_constantes split: prod.splits)+


section \<open>The first call and the repeated call\<close>

lemma logger_log_salida:
  "salida (logger_log n l m s) =
     (if root_level s \<le> l
      then salida s @
           (if root_handlers s = []
            then (if WARNING \<le> l then [(Stream Stderr, \<lparr>logger_name = n, levelno = l, msg = m\<rparr>)] else [])
            else map (\<lambda>h. (destino h, \<lparr>logger_name = n, levelno = l, msg = m\<rparr>))
                     (filter (\<lambda>h. nivel h \<le> l) (root_handlers s)))
      else salida s)"
  by (simp add: logger_log_def callHandlers_def Let_def)

lemma configurar_logging_primera:
  assumes "\<not> configuracion_realizada s"
  shows "configurar_logging w ops s =
     loguear_estado ops
       ((configurar_archivo w ops (consola_y_reset ops (raiz_y_limpieza s)))
          \<lparr>configuracion_realizada := True\<rparr>)"
  using assms by (simp add: configurar_logging_def Let_def)

lemma configurar_logging_repetida:
  assumes "configuracion_realizada s"
  shows "configurar_logging w ops s = logger_log ''ConfigLog'' WARNING IntentoReconfigurar s"
  using assms by (simp add: configurar_logging_def)

lemma configurar_logging_root_level:
  "\<not> configuracion_realizada s \<Longrightarrow> root_level (configurar_logging w ops s) = DEBUG"
  by (simp add: configurar_logging_primera)

lemma manejador_archivo_base:
  "RUTA_BASE_ESCRITURA s' = RUTA_BASE_ESCRITURA s \<Longrightarrow>
   manejador_archivo w ops s' = manejador_archivo w ops s"
  by (simp add: manejador_archivo_def get_logs_path_def)

lemma manejador_archivo_preparado:
  "manejador_archivo w ops (consola_y_reset ops (raiz_y_limpieza s)) = manejador_archivo w ops s"
  by (rule manejador_archivo_base) simp

lemma fallo_archivo_impresos:
  "impresos (fallo_archivo x ops s) =
     impresos s @
     (case x of
        OSError \<Rightarrow> [ErrorCriticoLogConfig, DirectorioIntentado (get_logs_path s []),
                    ArchivoIntentado (nombre_archivo_log ops), ErrorSistemaOperativo]
      | _ \<Rightarrow> [ErrorInesperadoLogConfig])"
  by (cases x) (simp_all add: fallo_archivo_def)

lemma logging_critical_registros:
  "root_level s \<le> CRITICAL \<Longrightarrow>
   registros (logging_critical m s) =
     registros s @ [\<lparr>logger_name = ''root'', levelno = CRITICAL, msg = m\<rparr>]"
  by (simp add: logging_critical_def basicConfig_def logger_log_registros)

lemma logging_critical_salida:
  "root_level s \<le> CRITICAL \<Longrightarrow>
   salida (logging_critical m s) =
     salida s @
     (if root_handlers s = []
      then [(Stream Stderr, \<lparr>logger_name = ''root'', levelno = CRITICAL, msg = m\<rparr>)]
      else map (\<lambda>h. (destino h, \<lparr>logger_name = ''root'', levelno = CRITICAL, msg = m\<rparr>))
               (filter (\<lambda>h. nivel h \<le> CRITICAL) (root_handlers s)))"
  by (simp add: logging_critical_def basicConfig_def logger_log_salida manejador_basico_def
      NOTSET_def CRITICAL_def)

lemma fallo_archivo_registros:
  "root_level s \<le> CRITICAL \<Longrightarrow>
   registros (fallo_archivo x ops s) = registros s @ [registro_critico x]"
  by (cases x) (simp_all add: fallo_archivo_def registro_critico_def logging_critical_registros)

lemma fallo_archivo_salida:
  "root_level s \<le> CRITICAL \<Longrightarrow>
   salida (fallo_archivo x ops s) =
     salida s @
     (if root_handlers s = [] then [(Stream Stderr, registro_critico x)]
      else map (\<lambda>h. (destino h, registro_critico x))
               (filter (\<lambda>h. nivel h \<le> CRITICAL) (root_handlers s)))"
  by (cases x) (simp_all add: fallo_archivo_def registro_critico_def logging_critical_salida)

lemma fallo_archivo_handlers:
  "root_handlers (fallo_archivo x ops s) =
     (if root_handlers s = [] then [manejador_basico] else root_handlers s)"
  by (cases x) (simp_all add: fallo_archivo_def logging_critical_handlers manejador_basico_def)

lemma loguear_estado_registros_prefijo:
  "\<exists>rs. registros (loguear_estado ops s) = registros s @ rs"
  by (simp add: loguear_estado_def Let_def logger_log_registros)

lemma loguear_estado_salida_prefijo:
  "\<exists>rs. salida (loguear_estado ops s) = salida s @ rs"
  by (simp add: loguear_estado_def Let_def logger_log_salida)

lemma get_logs_path_preparado [simp]:
  "get_logs_path (consola_y_reset ops (raiz_y_limpieza s)) rel = get_logs_path s rel"
  by (simp add: get_logs_path_def)

lemma configurar_logging_fallo:
  assumes "\<not> configuracion_realizada s" and "log_a_archivo ops"
    and "manejador_archivo w ops s = Inl x"
  shows "configurar_logging w ops s =
     loguear_estado ops
       ((fallo_archivo x ops (consola_y_reset ops (raiz_y_limpieza s)))
          \<lparr>configuracion_realizada := True\<rparr>)"
  using assms
  by (simp add: configurar_logging_primera configurar_archivo_def manejador_archivo_preparado)

lemma configurar_logging_sin_archivo:
  assumes "\<not> configuracion_realizada s" and "\<not> log_a_archivo ops"
  shows "configurar_logging w ops s =
     loguear_estado ops
       ((consola_y_reset ops (raiz_y_limpieza s))\<lparr>configuracion_realizada := True\<rparr>)"
  using assms by (simp add: configurar_logging_primera configurar_archivo_def)

lemma configurar_archivo_handlers:
  "root_handlers (configurar_archivo w ops s) =
     root_handlers s @
     (if log_a_archivo ops
      then (case manejador_archivo w ops s of
              Inr (h, p) \<Rightarrow> [h]
            | Inl x \<Rightarrow> (if root_handlers s = [] then [manejador_basico] else []))
      else [])"
  by (simp add: configurar_archivo_def fallo_archivo_handlers split: sum.splits prod.splits)

lemma configurar_archivo_impresos:
  "impresos (configurar_archivo w ops s) =
     impresos s @
     (if log_a_archivo ops
      then (case manejador_archivo w ops s of
              Inr (h, p) \<Rightarrow> []
            | Inl OSError \<Rightarrow>
                [ErrorCriticoLogConfig, DirectorioIntentado (get_logs_path s []),
                 ArchivoIntentado (nombre_archivo_log ops), ErrorSistemaOperativo]
            | Inl _ \<Rightarrow> [ErrorInesperadoLogConfig])
      else [])"
  by (simp add: configurar_archivo_def fallo_archivo_impresos
      split: sum.splits prod.splits error.splits)

lemma configurar_varias_configurado:
  assumes "configuracion_realizada s"
  shows "configuracion_realizada (configurar_varias llamadas s)
     \<and> ruta_archivo_log_actual (configurar_varias llamadas s) = ruta_archivo_log_actual s
     \<and> root_handlers (configurar_varias llamadas s) = root_handlers s
     \<and> cerrados (configurar_varias llamadas s) = cerrados s
     \<and> impresos (configurar_varias llamadas s) = impresos s
     \<and> root_level (configurar_varias llamadas s) = root_level s"
  using assms unfolding configurar_varias_def
proof (induction llamadas arbitrary: s)
  case Nil
  then show ?case by simp
next
  case (Cons c cs)
  obtain w ops where c: "c = (w, ops)" by (cases c)
  have "configuracion_realizada (configurar_logging w ops s)"
    by (rule configurar_logging_realizada)
  from Cons.IH [OF this] Cons.prems show ?case
    by (simp add: c configurar_logging_repetida)
qed


section \<open>Claims about the paths\<close>

text \<open>
  Claim C3. Run from source (not bundled), the read base and the write base are equal: called
  from the module's top level, as lines 100 and 101 do, \<open>_obtener_ruta_base_escritura\<close> and
  \<open>_obtener_ruta_base_lectura\<close> return the same directory, whatever the module's location,
  the call stack around the import and the working directory; so the two constants
  \<open>RUTA_BASE_LECTURA\<close> and \<open>RUTA_BASE_ESCRITURA\<close> of the loaded module coincide.
\<close>

theorem bases_iguales_en_desarrollo:
  assumes "\<not> IS_BUNDLED_of e"
  shows "obtener_ruta_base_escritura e (import_stack e) = obtener_ruta_base_lectura e (import_stack e)
     \<and> (\<exists>s. cargar_modulo e = Inr s \<and> \<not> IS_BUNDLED s
              \<and> RUTA_BASE_LECTURA s = RUTA_BASE_ESCRITURA s)"
proof -
  obtain s where s: "cargar_modulo e = Inr s"
    using cargar_modulo_total by blast
  then have nb: "\<not> IS_BUNDLED s"
    using assms cargar_modulo_campos(1) by simp
  with s have "RUTA_BASE_LECTURA s = RUTA_BASE_ESCRITURA s"
    by (rule bases_iguales_desarrollo)
  with s nb escritura_es_lectura [OF assms] show ?thesis by blast
qed

theorem bases_iguales_en_desarrollo_witness:
  "\<not> IS_BUNDLED_of entorno_script
   \<and> obtener_ruta_base_lectura entorno_script (import_stack entorno_script) = Inr (''/proyecto'', [])
   \<and> obtener_ruta_base_escritura entorno_script (import_stack entorno_script) = Inr (''/proyecto'', [])"
proof -
  have nb: "\<not> IS_BUNDLED_of entorno_script"
    by (simp add: IS_BUNDLED_of_def entorno_script_def)
  have l: "obtener_ruta_base_lectura entorno_script (import_stack entorno_script) = Inr (''/proyecto'', [])"
    by code_simp
  from bases_iguales_en_desarrollo [OF nb] nb l show ?thesis by simp
qed

text \<open>
  Claim C4. In both execution modes and for every relative suffix (one that does not begin
  with the separator), \<open>get_data_path\<close> and \<open>get_logs_path\<close> return the write base, a
  separator unless the base already ends with one, the subfolder name \<open>data\<close> or \<open>logs\<close>, a
  separator and the suffix; the write base is a prefix of both. Run from source with project
  root \<open>/app\<close>, \<open>get_logs_path()\<close> is \<open>/app/logs/\<close>: the default empty suffix leaves a final
  separator, and the path normalises to the directory \<open>/app/logs\<close>.
\<close>

theorem get_data_logs_path_rooted:
  assumes "cargar_modulo e = Inr s"
  shows "obtener_ruta_base_escritura e (import_stack e) = Inr (RUTA_BASE_ESCRITURA s, [])
     \<and> (\<not> isabs rel \<longrightarrow>
          get_data_path s rel = base_con_sep (RUTA_BASE_ESCRITURA s) @ ''data/'' @ rel
        \<and> get_logs_path s rel = base_con_sep (RUTA_BASE_ESCRITURA s) @ ''logs/'' @ rel
        \<and> prefix (RUTA_BASE_ESCRITURA s) (get_data_path s rel)
        \<and> prefix (RUTA_BASE_ESCRITURA s) (get_logs_path s rel))
     \<and> (\<not> IS_BUNDLED s \<and> RUTA_BASE_ESCRITURA s = ''/app'' \<longrightarrow>
          get_logs_path s [] = ''/app/logs/'' \<and> normpath (get_logs_path s []) = ''/app/logs'')"
proof -
  have a: "obtener_ruta_base_escritura e (import_stack e) = Inr (RUTA_BASE_ESCRITURA s, [])"
    using assms by (rule cargar_modulo_campos(3))
  have b: "get_data_path s rel = base_con_sep (RUTA_BASE_ESCRITURA s) @ ''data/'' @ rel"
      "get_logs_path s rel = base_con_sep (RUTA_BASE_ESCRITURA s) @ ''logs/'' @ rel"
    if "\<not> isabs rel"
    using that by (simp_all add: get_data_path_def get_logs_path_def join_data join_logs)
  have c: "get_logs_path s [] = ''/app/logs/''" if "RUTA_BASE_ESCRITURA s = ''/app''"
    using that by (simp add: get_logs_path_def join_def join_step_def startswith_sep_def endswith_sep_def sep_def)
  have d: "normpath ''/app/logs/'' = ''/app/logs''"
    by code_simp
  show ?thesis
    using a b c d prefix_base_con_sep by simp
qed

theorem get_data_logs_path_rooted_witness:
  "cargar_modulo entorno_app = Inr estado_app
   \<and> \<not> isabs ''run.log''
   \<and> \<not> IS_BUNDLED estado_app \<and> RUTA_BASE_ESCRITURA estado_app = ''/app''
   \<and> get_data_path estado_app ''run.log'' = ''/app/data/run.log''
   \<and> get_logs_path estado_app ''run.log'' = ''/app/logs/run.log''
   \<and> get_logs_path estado_app [] = ''/app/logs/''
   \<and> normpath (get_logs_path estado_app []) = ''/app/logs''"
proof -
  have r: "\<not> isabs ''run.log''"
    by (simp add: isabs_def startswith_sep_def sep_def)
  have m: "\<not> IS_BUNDLED estado_app \<and> RUTA_BASE_ESCRITURA estado_app = ''/app''"
    by (simp add: estado_app_def)
  have b: "base_con_sep ''/app'' = ''/app/''"
    by (simp add: base_con_sep_def endswith_sep_def sep_def)
  have d: "normpath ''/app/logs/'' = ''/app/logs''"
    by code_simp
  show ?thesis
    using get_data_logs_path_rooted [OF cargar_entorno_app, of "''run.log''"] r m b d cargar_entorno_app
    by simp
qed

text \<open>
  Claim C6. \<open>get_credentials_path\<close> returns \<open>base/config/credenciales.json\<close>, where the base
  is the write base when bundled (the directory of the executable) and the read base when run
  from source. It reads nothing but the three constants of the module: the file system is not
  an argument, and the result is the same after a run of \<open>configurar_logging\<close> against any
  file system. Run from source with project root \<open>/app\<close> it returns
  \<open>/app/config/credenciales.json\<close>.
\<close>

theorem get_credentials_path_base:
  assumes "cargar_modulo e = Inr s"
  shows "get_credentials_path s =
           base_con_sep (if IS_BUNDLED s then RUTA_BASE_ESCRITURA s else RUTA_BASE_LECTURA s)
             @ ''config/credenciales.json''
     \<and> (IS_BUNDLED s \<longrightarrow> RUTA_BASE_ESCRITURA s = dirname (sys_executable e))
     \<and> get_credentials_path (configurar_logging w ops s) = get_credentials_path s
     \<and> (\<not> IS_BUNDLED s \<and> RUTA_BASE_LECTURA s = ''/app'' \<longrightarrow>
          get_credentials_path s = ''/app/config/credenciales.json'')"
proof -
  have a: "get_credentials_path s =
           base_con_sep (if IS_BUNDLED s then RUTA_BASE_ESCRITURA s else RUTA_BASE_LECTURA s)
             @ ''config/credenciales.json''"
    by (simp add: get_credentials_path_def join_credenciales)
  have b: "RUTA_BASE_ESCRITURA s = dirname (sys_executable e)" if "IS_BUNDLED s"
    using that cargar_modulo_campos(1,3) [OF assms]
    by (simp add: obtener_ruta_base_escritura_def)
  have c: "get_credentials_path (configurar_logging w ops s) = get_credentials_path s"
    by (simp add: get_credentials_path_def configurar_logging_constantes)
  have d: "base_con_sep ''/app'' = ''/app/''"
    by (simp add: base_con_sep_def endswith_sep_def sep_def)
  show ?thesis
    using a b c d by simp
qed

theorem get_credentials_path_base_witness:
  "cargar_modulo entorno_app = Inr estado_app
   \<and> \<not> IS_BUNDLED estado_app \<and> RUTA_BASE_LECTURA estado_app = ''/app''
   \<and> get_credentials_path estado_app = ''/app/config/credenciales.json''"
proof -
  have m: "\<not> IS_BUNDLED estado_app \<and> RUTA_BASE_LECTURA estado_app = ''/app''"
    by (simp add: estado_app_def)
  from get_credentials_path_base [OF cargar_entorno_app] m cargar_entorno_app
  show ?thesis by blast
qed

text \<open>
  Claim C9. In both execution modes \<open>get_credentials_path\<close> is the join of
  \<open>RUTA_BASE_ESCRITURA\<close> with \<open>config\<close> and \<open>credenciales.json\<close>: the branch on
  \<open>IS_BUNDLED\<close> inside it changes nothing, since the two bases coincide when not bundled.
\<close>

theorem get_credentials_path_escritura:
  assumes "cargar_modulo e = Inr s"
  shows "get_credentials_path s = join (RUTA_BASE_ESCRITURA s) [''config'', ''credenciales.json'']"
  using bases_iguales_desarrollo [OF assms]
  by (simp add: get_credentials_path_def)

theorem get_credentials_path_escritura_witness:
  "cargar_modulo entorno_script = Inr estado_script
   \<and> get_credentials_path estado_script = ''/proyecto/config/credenciales.json''"
proof -
  have j: "join (RUTA_BASE_ESCRITURA estado_script) [''config'', ''credenciales.json'']
             = ''/proyecto/config/credenciales.json''"
    by code_simp
  from get_credentials_path_escritura [OF cargar_entorno_script] j cargar_entorno_script
  show ?thesis by simp
qed

text \<open>
  Claim C7. The module is classified as bundled exactly when \<open>sys.frozen\<close> is truthy and
  \<open>sys._MEIPASS\<close> is present; with any other combination of the two it runs as from source.
  The flag is set when the module is loaded and no run of \<open>configurar_logging\<close> changes it.
\<close>

theorem IS_BUNDLED_clasificacion:
  assumes "cargar_modulo e = Inr s"
  shows "(IS_BUNDLED s \<longleftrightarrow> sys_frozen e = Some True \<and> sys_MEIPASS e \<noteq> None)
     \<and> IS_BUNDLED (configurar_varias llamadas s) = IS_BUNDLED s"
proof -
  have "IS_BUNDLED s = IS_BUNDLED_of e"
    using assms by (rule cargar_modulo_campos(1))
  then have "IS_BUNDLED s \<longleftrightarrow> sys_frozen e = Some True \<and> sys_MEIPASS e \<noteq> None"
    by (auto simp: IS_BUNDLED_of_def split: option.splits)
  then show ?thesis
    by (simp add: configurar_varias_constantes)
qed

theorem IS_BUNDLED_clasificacion_witness:
  "cargar_modulo entorno_empaquetado = Inr estado_empaquetado
   \<and> sys_frozen entorno_empaquetado = Some True \<and> sys_MEIPASS entorno_empaquetado \<noteq> None
   \<and> IS_BUNDLED estado_empaquetado
   \<and> IS_BUNDLED (configurar_varias [(mundo_ok, opciones_por_defecto)] estado_empaquetado)"
proof -
  have f: "sys_frozen entorno_empaquetado = Some True \<and> sys_MEIPASS entorno_empaquetado \<noteq> None"
    by (simp add: entorno_empaquetado_def)
  from IS_BUNDLED_clasificacion [OF cargar_entorno_empaquetado,
      of "[(mundo_ok, opciones_por_defecto)]"] f cargar_entorno_empaquetado
  show ?thesis by simp
qed

text \<open>
  Claim C8 (amended). Run from source with \<open>__file__\<close> of the module unbound,
  \<open>_obtener_ruta_base_lectura\<close> takes the first frame, from its own outward, whose globals
  bind \<open>__file__\<close>, or, when no frame does, the code file of its caller's frame; if the
  directory of that file is named \<open>scripts\<close> it returns the parent, otherwise that directory.
  When the step raises (no frame is available) it returns the absolute path of \<open>.\<close>, the
  working directory. In every case it returns without raising and prints nothing: the
  warning of line 76 is commented out, and the print of line 81 is behind a test that never
  holds.
\<close>

theorem ruta_base_lectura_fallback:
  assumes "\<not> IS_BUNDLED_of e" and "module_file e = None"
  shows "(frames_available e \<and> List.map_filter f_globals_file stk = p # ps \<longrightarrow>
            obtener_ruta_base_lectura e stk = Inr (raiz_desde_script e p, []))
     \<and> (frames_available e \<and> List.map_filter f_globals_file stk = [] \<longrightarrow>
            obtener_ruta_base_lectura e stk =
              Inr (raiz_desde_script e
                     (co_filename (case stk of [] \<Rightarrow> module_frame e | g # _ \<Rightarrow> g)), []))
     \<and> (\<not> frames_available e \<longrightarrow>
            obtener_ruta_base_lectura e stk = Inr (abspath (cwd e) ''.'', []))
     \<and> (basename (dirname (abspath (cwd e) fl)) = ''scripts'' \<longrightarrow>
            raiz_desde_script e fl = abspath (cwd e) (join (dirname (abspath (cwd e) fl)) [''..'']))
     \<and> (basename (dirname (abspath (cwd e) fl)) \<noteq> ''scripts'' \<longrightarrow>
            raiz_desde_script e fl = dirname (abspath (cwd e) fl))"
proof -
  have mf: "List.map_filter f_globals_file (module_frame e # stk) = List.map_filter f_globals_file stk"
    using assms(2) by (simp add: List.map_filter_simps module_frame_def)
  have lect: "obtener_ruta_base_lectura e stk = Inr (ruta_base_desde_pila e stk, [])"
    using assms by (simp add: obtener_ruta_base_lectura_def ruta_base_desarrollo_def)
  have a: "ruta_base_desde_pila e stk = raiz_desde_script e p"
    if "frames_available e" "List.map_filter f_globals_file stk = p # ps"
    using that mf by (simp add: ruta_base_desde_pila_def currentframe_def caller_file_primero)
  have b: "ruta_base_desde_pila e stk =
      raiz_desde_script e (co_filename (case stk of [] \<Rightarrow> module_frame e | g # _ \<Rightarrow> g))"
    if "frames_available e" "List.map_filter f_globals_file stk = []"
    using that mf
    by (cases stk) (simp_all add: ruta_base_desde_pila_def currentframe_def caller_file_primero)
  have c: "ruta_base_desde_pila e stk = abspath (cwd e) ''.''" if "\<not> frames_available e"
    using that by (simp add: ruta_base_desde_pila_def currentframe_def caller_file_def)
  show ?thesis
    using lect a b c by (simp add: raiz_desde_script_def Let_def)
qed

theorem ruta_base_lectura_fallback_witness:
  "\<not> IS_BUNDLED_of entorno_script \<and> module_file entorno_script = None
   \<and> frames_available entorno_script
   \<and> List.map_filter f_globals_file (import_stack entorno_script) = [''/proyecto/scripts/main.py'']
   \<and> basename (dirname (abspath (cwd entorno_script) ''/proyecto/scripts/main.py'')) = ''scripts''
   \<and> obtener_ruta_base_lectura entorno_script (import_stack entorno_script)
       = Inr (''/proyecto'', [])"
proof -
  have h: "\<not> IS_BUNDLED_of entorno_script" "module_file entorno_script = None"
    "frames_available entorno_script"
    by (simp_all add: IS_BUNDLED_of_def entorno_script_def)
  have m: "List.map_filter f_globals_file (import_stack entorno_script) = [''/proyecto/scripts/main.py'']"
    by code_simp
  have b: "basename (dirname (abspath (cwd entorno_script) ''/proyecto/scripts/main.py'')) = ''scripts''"
    by code_simp
  have r: "abspath (cwd entorno_script)
             (join (dirname (abspath (cwd entorno_script) ''/proyecto/scripts/main.py'')) [''..''])
           = ''/proyecto''"
    by code_simp
  from ruta_base_lectura_fallback [OF h(1,2), of "import_stack entorno_script"
      "''/proyecto/scripts/main.py''" "[]" "''/proyecto/scripts/main.py''"] h m b r
  show ?thesis by simp
qed

text \<open>
  Claim C8 as stated fails: with no frame available every step of the chain fails and the
  working directory is returned, but nothing is printed.
\<close>

theorem ruta_base_lectura_sin_advertencia:
  "\<not> IS_BUNDLED_of entorno_sin_pila \<and> module_file entorno_sin_pila = None
   \<and> caller_file (currentframe entorno_sin_pila (import_stack entorno_sin_pila))
       = Inl AttributeError
   \<and> obtener_ruta_base_lectura entorno_sin_pila (import_stack entorno_sin_pila)
       = Inr (''/home/user'', [])"
  by code_simp


section \<open>Claims about the configuration of logging\<close>

text \<open>
  Claim C1. After a first call of \<open>configurar_logging\<close> on the unconfigured state, a second
  call, with any options and any file system, only logs one warning on \<open>ConfigLog\<close>: the
  active log file path, the handlers of the root logger, the closed handlers, the root level,
  the printed lines and the module's constants are those left by the first call; the warning
  is the one record added, handed to the handlers already attached (or to standard error by
  the library when there is none).
\<close>

theorem configurar_logging_dos_veces:
  assumes "\<not> configuracion_realizada s"
  shows "let s1 = configurar_logging wa opsa s;
             s2 = configurar_logging wb opsb s1
         in obtener_ruta_archivo_log s2 = obtener_ruta_archivo_log s1
          \<and> root_handlers s2 = root_handlers s1
          \<and> cerrados s2 = cerrados s1
          \<and> root_level s2 = root_level s1
          \<and> impresos s2 = impresos s1
          \<and> configuracion_realizada s1 \<and> configuracion_realizada s2
          \<and> IS_BUNDLED s2 = IS_BUNDLED s1
          \<and> RUTA_BASE_LECTURA s2 = RUTA_BASE_LECTURA s1
          \<and> RUTA_BASE_ESCRITURA s2 = RUTA_BASE_ESCRITURA s1
          \<and> registros s2 = registros s1 @ [aviso_reconfiguracion]
          \<and> salida s2 = salida s1 @
               (if root_handlers s1 = [] then [(Stream Stderr, aviso_reconfiguracion)]
                else map (\<lambda>h. (destino h, aviso_reconfiguracion))
                         (filter (\<lambda>h. nivel h \<le> WARNING) (root_handlers s1)))"
proof -
  let ?s1 = "configurar_logging wa opsa s"
  have c: "configuracion_realizada ?s1"
    by (rule configurar_logging_realizada)
  have l: "root_level ?s1 \<le> WARNING"
    using assms by (simp add: configurar_logging_root_level DEBUG_def WARNING_def)
  have r: "configurar_logging wb opsb ?s1 = logger_log ''ConfigLog'' WARNING IntentoReconfigurar ?s1"
    using c by (rule configurar_logging_repetida)
  show ?thesis
    unfolding Let_def r
    using c l
    by (simp add: obtener_ruta_archivo_log_def logger_log_registros logger_log_salida
        aviso_reconfiguracion_def)
qed

theorem configurar_logging_dos_veces_witness:
  "\<not> configuracion_realizada estado_app
   \<and> obtener_ruta_archivo_log (configurar_logging mundo_ok opciones_por_defecto estado_app)
       = Some ''/app/logs/app.log''
   \<and> obtener_ruta_archivo_log
       (configurar_logging mundo_sin_permiso opciones_sin_salidas
          (configurar_logging mundo_ok opciones_por_defecto estado_app))
       = Some ''/app/logs/app.log''
   \<and> root_handlers
       (configurar_logging mundo_sin_permiso opciones_sin_salidas
          (configurar_logging mundo_ok opciones_por_defecto estado_app))
       = root_handlers (configurar_logging mundo_ok opciones_por_defecto estado_app)"
proof -
  have n: "\<not> configuracion_realizada estado_app"
    by (simp add: estado_app_def)
  have p: "obtener_ruta_archivo_log (configurar_logging mundo_ok opciones_por_defecto estado_app)
       = Some ''/app/logs/app.log''"
    by code_simp
  from configurar_logging_dos_veces [OF n, where wa = mundo_ok and opsa = opciones_por_defecto
      and wb = mundo_sin_permiso and opsb = opciones_sin_salidas] n p
  show ?thesis by (simp add: Let_def)
qed

text \<open>
  Claim C2 (amended). When the file sink is enabled and its setup raises at any step (the
  directory cannot be created or the file cannot be opened, with \<open>OSError\<close> or any other
  exception), \<open>configurar_logging\<close> still completes and marks the state configured, the
  active log file path is \<open>None\<close>, the failure is printed on standard output and logged at
  \<open>CRITICAL\<close> on the root logger, and the console handler, when enabled, is attached (the
  only handler the call adds) and receives that record if its level admits it.
\<close>

theorem fallo_sink_archivo_no_fatal:
  assumes "\<not> configuracion_realizada s" and "log_a_archivo ops"
    and "manejador_archivo w ops s = Inl x"
  shows "let s' = configurar_logging w ops s
         in configuracion_realizada s'
          \<and> obtener_ruta_archivo_log s' = None
          \<and> impresos s' =
              impresos s
              @ map AdvertenciaCerrandoHandler (filter close_raises (root_handlers s))
              @ (case x of
                   OSError \<Rightarrow> [ErrorCriticoLogConfig, DirectorioIntentado (get_logs_path s []),
                               ArchivoIntentado (nombre_archivo_log ops), ErrorSistemaOperativo]
                 | _ \<Rightarrow> [ErrorInesperadoLogConfig])
          \<and> registro_critico x \<in> set (registros s')
          \<and> (log_a_consola ops \<longrightarrow>
                root_handlers s' =
                  filter close_raises (root_handlers s) @ [manejador_consola ops]
              \<and> (nivel_consola ops \<le> CRITICAL \<longrightarrow>
                    registro_critico x \<in> set (escrito_en (Stream Stdout) s')))"
proof -
  let ?p = "consola_y_reset ops (raiz_y_limpieza s)"
  let ?f = "fallo_archivo x ops ?p"
  let ?s' = "configurar_logging w ops s"
  have eq: "?s' = loguear_estado ops (?f\<lparr>configuracion_realizada := True\<rparr>)"
    using assms by (rule configurar_logging_fallo)
  have lvl: "root_level ?p \<le> CRITICAL"
    by (simp add: DEBUG_def CRITICAL_def)
  have a: "configuracion_realizada ?s'"
    by (rule configurar_logging_realizada)
  have b: "obtener_ruta_archivo_log ?s' = None"
    by (simp add: eq obtener_ruta_archivo_log_def)
  have c: "impresos ?s' =
      impresos s
      @ map AdvertenciaCerrandoHandler (filter close_raises (root_handlers s))
      @ (case x of
           OSError \<Rightarrow> [ErrorCriticoLogConfig, DirectorioIntentado (get_logs_path s []),
                       ArchivoIntentado (nombre_archivo_log ops), ErrorSistemaOperativo]
         | _ \<Rightarrow> [ErrorInesperadoLogConfig])"
    by (simp add: eq fallo_archivo_impresos split: error.splits)
  obtain rs where "registros ?s' = registros (?f\<lparr>configuracion_realizada := True\<rparr>) @ rs"
    unfolding eq using loguear_estado_registros_prefijo by blast
  then have d: "registro_critico x \<in> set (registros ?s')"
    using lvl by (simp add: fallo_archivo_registros)
  have e: "root_handlers ?s' = filter close_raises (root_handlers s) @ [manejador_consola ops]"
    if "log_a_consola ops"
    using that by (simp add: eq fallo_archivo_handlers)
  obtain ss where ss: "salida ?s' = salida (?f\<lparr>configuracion_realizada := True\<rparr>) @ ss"
    unfolding eq using loguear_estado_salida_prefijo by blast
  have f: "registro_critico x \<in> set (escrito_en (Stream Stdout) ?s')"
    if "log_a_consola ops" "nivel_consola ops \<le> CRITICAL"
  proof -
    have "(Stream Stdout, registro_critico x) \<in> set (salida ?f)"
      using that lvl by (simp add: fallo_archivo_salida manejador_consola_def)
    then have "(Stream Stdout, registro_critico x) \<in> set (salida ?s')"
      using ss by simp
    then show ?thesis
      by (force simp: escrito_en_def)
  qed
  show ?thesis
    unfolding Let_def using a b c d e f by blast
qed

theorem fallo_sink_archivo_no_fatal_witness:
  "\<not> configuracion_realizada estado_app \<and> log_a_archivo opciones_por_defecto
   \<and> manejador_archivo mundo_sin_permiso opciones_por_defecto estado_app = Inl OSError
   \<and> log_a_consola opciones_por_defecto \<and> nivel_consola opciones_por_defecto \<le> CRITICAL
   \<and> obtener_ruta_archivo_log
       (configurar_logging mundo_sin_permiso opciones_por_defecto estado_app) = None
   \<and> root_handlers (configurar_logging mundo_sin_permiso opciones_por_defecto estado_app)
       = [manejador_consola opciones_por_defecto]
   \<and> registro_critico OSError
       \<in> set (escrito_en (Stream Stdout)
                (configurar_logging mundo_sin_permiso opciones_por_defecto estado_app))"
proof -
  have n: "\<not> configuracion_realizada estado_app"
    by (simp add: estado_app_def)
  have o: "log_a_archivo opciones_por_defecto" "log_a_consola opciones_por_defecto"
    "nivel_consola opciones_por_defecto \<le> CRITICAL"
    by (simp_all add: opciones_por_defecto_def INFO_def CRITICAL_def)
  have m: "manejador_archivo mundo_sin_permiso opciones_por_defecto estado_app = Inl OSError"
    by code_simp
  have h: "root_handlers estado_app = []"
    by (simp add: estado_app_def)
  from fallo_sink_archivo_no_fatal [OF n o(1) m] n o m h
  show ?thesis by (simp add: Let_def)
qed

text \<open>
  Claim C2 as stated fails: with the default options and a logs directory that cannot be
  created, the report is printed on standard output and nothing reaches standard error.
\<close>

theorem fallo_sink_archivo_stdout:
  "manejador_archivo mundo_sin_permiso opciones_por_defecto estado_app = Inl OSError
   \<and> escrito_en (Stream Stderr)
       (configurar_logging mundo_sin_permiso opciones_por_defecto estado_app) = []
   \<and> impresos (configurar_logging mundo_sin_permiso opciones_por_defecto estado_app)
       = [ErrorCriticoLogConfig, DirectorioIntentado ''/app/logs/'',
          ArchivoIntentado ''app.log'', ErrorSistemaOperativo]"
  by code_simp

text \<open>
  Claim C5 (amended). During the first call of \<open>configurar_logging\<close> every handler found on
  the root logger whose \<open>close()\<close> succeeds is closed and removed; each failure of \<open>close()\<close>
  is printed on standard output, the loop goes on with the remaining handlers, and the
  configuration completes. Stated of the call itself: the closed handlers grow by exactly the
  handlers that close cleanly; the root logger ends with the handlers left by the loop
  followed by the ones the call attaches (console, file, or the library's default one after a
  failed file sink on an otherwise empty root); the printed lines grow by one warning for each
  failed \<open>close()\<close>, in order, followed by the report of a failed file sink if any.
\<close>

theorem limpieza_de_handlers:
  assumes "\<not> configuracion_realizada s"
  shows "let s' = configurar_logging w ops s
         in configuracion_realizada s'
          \<and> cerrados s' = cerrados s @ filter (\<lambda>h. \<not> close_raises h) (root_handlers s)
          \<and> (\<forall>h \<in> set (root_handlers s). \<not> close_raises h \<longrightarrow> h \<in> set (cerrados s'))
          \<and> root_handlers s' =
               filter close_raises (root_handlers s)
               @ (if log_a_consola ops then [manejador_consola ops] else [])
               @ (if log_a_archivo ops
                  then (case manejador_archivo w ops s of
                          Inr (h, p) \<Rightarrow> [h]
                        | Inl x \<Rightarrow>
                            (if filter close_raises (root_handlers s) = [] \<and> \<not> log_a_consola ops
                             then [manejador_basico] else []))
                  else [])
          \<and> impresos s' =
               impresos s
               @ map AdvertenciaCerrandoHandler (filter close_raises (root_handlers s))
               @ (if log_a_archivo ops
                  then (case manejador_archivo w ops s of
                          Inr (h, p) \<Rightarrow> []
                        | Inl OSError \<Rightarrow>
                            [ErrorCriticoLogConfig, DirectorioIntentado (get_logs_path s []),
                             ArchivoIntentado (nombre_archivo_log ops), ErrorSistemaOperativo]
                        | Inl _ \<Rightarrow> [ErrorInesperadoLogConfig])
                  else [])"
proof -
  let ?p = "consola_y_reset ops (raiz_y_limpieza s)"
  let ?s' = "configurar_logging w ops s"
  have eq: "?s' = loguear_estado ops ((configurar_archivo w ops ?p)\<lparr>configuracion_realizada := True\<rparr>)"
    using assms by (rule configurar_logging_primera)
  have a: "configuracion_realizada ?s'"
    by (rule configurar_logging_realizada)
  have b: "cerrados ?s' = cerrados s @ filter (\<lambda>h. \<not> close_raises h) (root_handlers s)"
    by (simp add: eq)
  have c: "\<forall>h \<in> set (root_handlers s). \<not> close_raises h \<longrightarrow> h \<in> set (cerrados ?s')"
    by (simp add: b)
  have d: "root_handlers ?s' =
      filter close_raises (root_handlers s)
      @ (if log_a_consola ops then [manejador_consola ops] else [])
      @ (if log_a_archivo ops
         then (case manejador_archivo w ops s of
                 Inr (h, p) \<Rightarrow> [h]
               | Inl x \<Rightarrow>
                   (if filter close_raises (root_handlers s) = [] \<and> \<not> log_a_consola ops
                    then [manejador_basico] else []))
         else [])"
    by (simp add: eq configurar_archivo_handlers manejador_archivo_preparado
        split: sum.splits prod.splits)
  have e: "impresos ?s' =
      impresos s
      @ map AdvertenciaCerrandoHandler (filter close_raises (root_handlers s))
      @ (if log_a_archivo ops
         then (case manejador_archivo w ops s of
                 Inr (h, p) \<Rightarrow> []
               | Inl OSError \<Rightarrow>
                   [ErrorCriticoLogConfig, DirectorioIntentado (get_logs_path s []),
                    ArchivoIntentado (nombre_archivo_log ops), ErrorSistemaOperativo]
               | Inl _ \<Rightarrow> [ErrorInesperadoLogConfig])
         else [])"
    by (simp add: eq configurar_archivo_impresos manejador_archivo_preparado
        split: sum.splits prod.splits error.splits)
  show ?thesis
    unfolding Let_def using a b c d e by blast
qed

theorem limpieza_de_handlers_witness:
  "\<not> configuracion_realizada estado_con_handlers
   \<and> manejador_viejo \<in> set (root_handlers estado_con_handlers)
   \<and> \<not> close_raises manejador_viejo
   \<and> manejador_viejo
       \<in> set (cerrados (configurar_logging mundo_ok opciones_por_defecto estado_con_handlers))
   \<and> cerrados (configurar_logging mundo_ok opciones_por_defecto estado_con_handlers)
       = [manejador_viejo]
   \<and> root_handlers (configurar_logging mundo_ok opciones_por_defecto estado_con_handlers)
       = [manejador_roto, manejador_consola opciones_por_defecto,
          \<lparr>destino = File ''/app/logs/app.log'', nivel = 10, rotacion = Some (10485760, 5),
           close_raises = False\<rparr>]
   \<and> impresos (configurar_logging mundo_ok opciones_por_defecto estado_con_handlers)
       = [AdvertenciaCerrandoHandler manejador_roto]
   \<and> configuracion_realizada
       (configurar_logging mundo_ok opciones_por_defecto estado_con_handlers)"
proof -
  have n: "\<not> configuracion_realizada estado_con_handlers"
    by (simp add: estado_con_handlers_def estado_app_def)
  have h: "manejador_viejo \<in> set (root_handlers estado_con_handlers)"
    "\<not> close_raises manejador_viejo"
    by (simp_all add: estado_con_handlers_def manejador_viejo_def)
  have i: "impresos estado_con_handlers = []" "cerrados estado_con_handlers = []"
    "filter close_raises (root_handlers estado_con_handlers) = [manejador_roto]"
    "filter (\<lambda>h. \<not> close_raises h) (root_handlers estado_con_handlers) = [manejador_viejo]"
    by (simp_all add: estado_con_handlers_def estado_app_def manejador_viejo_def manejador_roto_def)
  have o: "log_a_consola opciones_por_defecto" "log_a_archivo opciones_por_defecto"
    by (simp_all add: opciones_por_defecto_def)
  have m: "manejador_archivo mundo_ok opciones_por_defecto estado_con_handlers =
      Inr (\<lparr>destino = File ''/app/logs/app.log'', nivel = 10, rotacion = Some (10485760, 5),
            close_raises = False\<rparr>, ''/app/logs/app.log'')"
    by code_simp
  from limpieza_de_handlers [OF n, of mundo_ok opciones_por_defecto] n h i o m
  show ?thesis by (simp add: Let_def)
qed

text \<open>
  Claim C5 as stated fails: a handler whose \<open>close()\<close> raises is reported on standard
  output, not on standard error, and it is still attached after the call.
\<close>

theorem limpieza_handler_roto:
  "root_handlers (configurar_logging mundo_ok opciones_sin_salidas estado_con_roto)
     = [manejador_roto]
   \<and> cerrados (configurar_logging mundo_ok opciones_sin_salidas estado_con_roto) = []
   \<and> impresos (configurar_logging mundo_ok opciones_sin_salidas estado_con_roto)
       = [AdvertenciaCerrandoHandler manejador_roto]
   \<and> escrito_en (Stream Stderr)
       (configurar_logging mundo_ok opciones_sin_salidas estado_con_roto) = []"
  by code_simp

text \<open>
  Claim C10 (amended). The first call marks the state configured also when the console sink
  is disabled and the file sink is disabled or fails; every later call leaves the handlers
  and the active log file path, which is \<open>None\<close>, as they are. With the file sink disabled
  the call attaches no handler. With the file sink failed, the report through
  \<open>logging.critical\<close> makes the library attach its default handler on standard error when
  the root logger holds none, and that handler stays.
\<close>

theorem sin_salidas_configurado:
  assumes "\<not> configuracion_realizada s" and "\<not> log_a_consola ops"
    and "log_a_archivo ops \<longrightarrow> manejador_archivo w ops s = Inl x"
  shows "let s1 = configurar_logging w ops s;
             sn = configurar_varias llamadas s1
         in configuracion_realizada s1 \<and> configuracion_realizada sn
          \<and> obtener_ruta_archivo_log s1 = None \<and> obtener_ruta_archivo_log sn = None
          \<and> root_handlers sn = root_handlers s1
          \<and> (\<not> log_a_archivo ops \<longrightarrow>
                root_handlers s1 = filter close_raises (root_handlers s))
          \<and> (log_a_archivo ops \<longrightarrow>
                root_handlers s1 =
                  (if filter close_raises (root_handlers s) = [] then [manejador_basico]
                   else filter close_raises (root_handlers s)))"
proof -
  let ?s1 = "configurar_logging w ops s"
  have c: "configuracion_realizada ?s1"
    by (rule configurar_logging_realizada)
  note v = configurar_varias_configurado [OF c, of llamadas]
  have r: "ruta_archivo_log_actual ?s1 = None"
  proof (cases "log_a_archivo ops")
    case True
    with assms show ?thesis by (simp add: configurar_logging_fallo)
  next
    case False
    with assms show ?thesis by (simp add: configurar_logging_sin_archivo)
  qed
  have h1: "root_handlers ?s1 = filter close_raises (root_handlers s)" if "\<not> log_a_archivo ops"
    using that assms by (simp add: configurar_logging_sin_archivo)
  have h2: "root_handlers ?s1 =
      (if filter close_raises (root_handlers s) = [] then [manejador_basico]
       else filter close_raises (root_handlers s))" if "log_a_archivo ops"
    using that assms by (simp add: configurar_logging_fallo fallo_archivo_handlers)
  show ?thesis
    unfolding Let_def obtener_ruta_archivo_log_def
    using c v r h1 h2 by simp
qed

theorem sin_salidas_configurado_witness:
  "\<not> configuracion_realizada estado_app \<and> \<not> log_a_consola opciones_sin_salidas
   \<and> \<not> log_a_archivo opciones_sin_salidas
   \<and> root_handlers (configurar_logging mundo_ok opciones_sin_salidas estado_app) = []
   \<and> root_handlers
       (configurar_varias [(mundo_ok, opciones_por_defecto), (mundo_ok, opciones_por_defecto)]
          (configurar_logging mundo_ok opciones_sin_salidas estado_app)) = []
   \<and> obtener_ruta_archivo_log
       (configurar_varias [(mundo_ok, opciones_por_defecto), (mundo_ok, opciones_por_defecto)]
          (configurar_logging mundo_ok opciones_sin_salidas estado_app)) = None
   \<and> \<not> log_a_consola opciones_solo_archivo \<and> log_a_archivo opciones_solo_archivo
   \<and> manejador_archivo mundo_sin_permiso opciones_solo_archivo estado_app = Inl OSError
   \<and> obtener_ruta_archivo_log
       (configurar_varias [(mundo_ok, opciones_por_defecto)]
          (configurar_logging mundo_sin_permiso opciones_solo_archivo estado_app)) = None"
proof -
  have n: "\<not> configuracion_realizada estado_app" "root_handlers estado_app = []"
    by (simp_all add: estado_app_def)
  have o: "\<not> log_a_consola opciones_sin_salidas" "\<not> log_a_archivo opciones_sin_salidas"
    "\<not> log_a_consola opciones_solo_archivo" "log_a_archivo opciones_solo_archivo"
    by (simp_all add: opciones_sin_salidas_def opciones_solo_archivo_def opciones_por_defecto_def)
  have i: "log_a_archivo opciones_sin_salidas \<longrightarrow>
      manejador_archivo mundo_ok opciones_sin_salidas estado_app = Inl OSError"
    using o by simp
  have m: "manejador_archivo mundo_sin_permiso opciones_solo_archivo estado_app = Inl OSError"
    by code_simp
  then have j: "log_a_archivo opciones_solo_archivo \<longrightarrow>
      manejador_archivo mundo_sin_permiso opciones_solo_archivo estado_app = Inl OSError"
    by simp
  from sin_salidas_configurado [OF n(1) o(1) i,
      of "[(mundo_ok, opciones_por_defecto), (mundo_ok, opciones_por_defecto)]"]
    sin_salidas_configurado [OF n(1) o(3) j, of "[(mundo_ok, opciones_por_defecto)]"]
    n o m
  show ?thesis by (simp add: Let_def)
qed

text \<open>
  Claim C10 as stated fails: with the console disabled and the logs directory impossible to
  create, the root logger ends with one handler, on standard error, and keeps it.
\<close>

theorem fallo_archivo_adjunta_stderr:
  "\<not> log_a_consola opciones_solo_archivo
   \<and> manejador_archivo mundo_sin_permiso opciones_solo_archivo estado_app = Inl OSError
   \<and> root_handlers (configurar_logging mundo_sin_permiso opciones_solo_archivo estado_app)
       = [manejador_basico]
   \<and> root_handlers
       (configurar_logging mundo_ok opciones_por_defecto
          (configurar_logging mundo_sin_permiso opciones_solo_archivo estado_app))
       = [manejador_basico]"
  by code_simp

end
